theory Spec2Isabelle
  imports Complex_Main
begin

section \<open>JavaScript values\<close>

text \<open>
  The client exchanges opaque JSON with the backend and takes arbitrary JavaScript values
  as arguments. Numbers are IEEE doubles in the source; the program performs no arithmetic
  on them, so a number is kept as the rational it denotes, or one of the three special
  values. \<open>JHost\<close> stands for a host object the program only passes along (a \<open>File\<close>).
  An object is the list of its own enumerable properties; a property is read with
  \<open>lookup\<close>, so the first binding of a key is the one that counts.
\<close>

datatype number = Fin rat | NaN | PosInf | NegInf

datatype jsval =
    JUndefined
  | JNull
  | JBool bool
  | JNum number
  | JStr string
  | JArr "jsval list"
  | JObj "(string \<times> jsval) list"
  | JHost string

text \<open>ToBoolean, as used by \<open>if (x)\<close>, \<open>!x\<close>, \<open>x || y\<close> and \<open>x && y\<close>.\<close>

fun truthy :: "jsval \<Rightarrow> bool" where
  "truthy JUndefined = False"
| "truthy JNull = False"
| "truthy (JBool b) = b"
| "truthy (JNum n) = (n \<noteq> Fin 0 \<and> n \<noteq> NaN)"
| "truthy (JStr s) = (s \<noteq> [])"
| "truthy (JArr xs) = True"
| "truthy (JObj kvs) = True"
| "truthy (JHost h) = True"

definition nullish :: "jsval \<Rightarrow> bool" where
  "nullish v = (v = JUndefined \<or> v = JNull)"

text \<open>\<open>a || b\<close> on values.\<close>

definition or_else :: "jsval \<Rightarrow> jsval \<Rightarrow> jsval" where
  "or_else a b = (if truthy a then a else b)"

text \<open>A parameter with a default value: the default replaces \<open>undefined\<close> only.\<close>

definition default_arg :: "jsval \<Rightarrow> jsval \<Rightarrow> jsval" where
  "default_arg d v = (if v = JUndefined then d else v)"

fun typeof :: "jsval \<Rightarrow> string" where
  "typeof JUndefined = ''undefined''"
| "typeof JNull = ''object''"
| "typeof (JBool b) = ''boolean''"
| "typeof (JNum n) = ''number''"
| "typeof (JStr s) = ''string''"
| "typeof (JArr xs) = ''object''"
| "typeof (JObj kvs) = ''object''"
| "typeof (JHost h) = ''object''"

text \<open>Decimal numerals, for the index keys of arrays and strings.\<close>

definition digit :: "nat \<Rightarrow> char" where
  "digit d = ''0123456789'' ! (d mod 10)"

fun dec :: "nat \<Rightarrow> string" where
  "dec n = (if n < 10 then [digit n] else dec (n div 10) @ [digit n])"

declare dec.simps [simp del]

text \<open>
  The own enumerable properties of a value, in the sense of object spread
  \<open>{...v}\<close>: the bindings of an object, the indexed elements of an array, the indexed
  characters of a string, and nothing for the other primitives.
\<close>

fun own_props :: "jsval \<Rightarrow> (string \<times> jsval) list" where
  "own_props (JObj kvs) = kvs"
| "own_props (JArr xs) = zip (map dec [0..<length xs]) xs"
| "own_props (JStr s) = zip (map dec [0..<length s]) (map (\<lambda>c. JStr [c]) s)"
| "own_props v = []"

definition lookup :: "(string \<times> jsval) list \<Rightarrow> string \<Rightarrow> jsval" where
  "lookup kvs k = (case map_of kvs k of Some v \<Rightarrow> v | None \<Rightarrow> JUndefined)"

text \<open>
  \<open>v.k\<close> on a receiver that is neither \<open>null\<close> nor \<open>undefined\<close>. Members inherited from
  a prototype (methods) are not values of this model; the program reads none of them
  through this function.
\<close>

definition prop_of :: "jsval \<Rightarrow> string \<Rightarrow> jsval" where
  "prop_of v k =
     (case v of
        JStr s \<Rightarrow> if k = ''length'' then JNum (Fin (of_nat (length s))) else lookup (own_props v) k
      | JArr xs \<Rightarrow> if k = ''length'' then JNum (Fin (of_nat (length xs))) else lookup (own_props v) k
      | _ \<Rightarrow> lookup (own_props v) k)"

text \<open>\<open>obj.k = v\<close>: an existing binding is overwritten in place, a new one is appended.\<close>

fun set_prop :: "(string \<times> jsval) list \<Rightarrow> string \<Rightarrow> jsval \<Rightarrow> (string \<times> jsval) list" where
  "set_prop [] k v = [(k, v)]"
| "set_prop ((k', v') # kvs) k v =
     (if k' = k then (k, v) # kvs else (k', v') # set_prop kvs k v)"

text \<open>\<open>String.prototype.includes\<close> and \<open>String.prototype.substring\<close>.\<close>

fun starts_with :: "string \<Rightarrow> string \<Rightarrow> bool" where
  "starts_with s [] = True"
| "starts_with [] (c # cs) = False"
| "starts_with (d # ds) (c # cs) = (d = c \<and> starts_with ds cs)"

fun str_includes :: "string \<Rightarrow> string \<Rightarrow> bool" where
  "str_includes [] sub = (sub = [])"
| "str_includes (c # cs) sub = (starts_with (c # cs) sub \<or> str_includes cs sub)"

definition substring :: "string \<Rightarrow> nat \<Rightarrow> nat \<Rightarrow> string" where
  "substring s i j = (let lo = min i j; hi = max i j in take (hi - lo) (drop lo s))"

section \<open>Template literals, errors, console\<close>

text \<open>
  A template literal is kept as its parts: the literal text and the substituted values.
  The conversion of a substituted value to text is the engine's and is not needed by any
  property below. \<open>Fixed n d\<close> is the text of \<open>n.toFixed(d)\<close>.
\<close>

datatype part = Lit string | Sub jsval | Fixed number nat

type_synonym template = "part list"

text \<open>A thrown value: an \<open>Error\<close> object with its name and message.\<close>

datatype error = JsError (err_name: string) (err_message: template)

datatype entry = Log template | ErrorEntry string error

text \<open>
  Reading a property throws a \<open>TypeError\<close> on \<open>null\<close> and \<open>undefined\<close>. The
  message text is the engine's; the wording here is V8's.
\<close>

definition get_prop :: "jsval \<Rightarrow> string \<Rightarrow> error + jsval" where
  "get_prop v k =
     (if nullish v
      then Inl (JsError ''TypeError''
                  [Lit ''Cannot read properties of '', Sub v, Lit '' (reading '', Lit k, Lit '')''])
      else Inr (prop_of v k))"

section \<open>The HTTP client\<close>

datatype meth = GET | POST | DELETE

datatype body = NoBody | JsonBody jsval | FormData "(string \<times> jsval) list"

text \<open>
  A request as the client issues it: the call's method, URL, data and configuration,
  with the client's base URL and default headers applied.
\<close>

record request =
  meth :: meth
  baseURL :: string
  url :: template
  body :: body
  params :: "(string \<times> jsval) list"
  headers :: "(string \<times> string) list"

record response =
  data :: jsval
  status :: nat

record client =
  client_baseURL :: string
  client_headers :: "(string \<times> string) list"

text \<open>The per-request configuration; an absent entry is the empty list.\<close>

record config =
  cfg_params :: "(string \<times> jsval) list"
  cfg_headers :: "(string \<times> string) list"

definition no_config :: config where
  "no_config = \<lparr>cfg_params = [], cfg_headers = []\<rparr>"

text \<open>
  What the module does not define: the build-time environment variable, the backend
  behind the HTTP client (a call resolves to a response or rejects with an error), and
  the text of \<open>Math.random().toString(36)\<close>.
\<close>

record host =
  REACT_APP_API_URL :: "string option"
  backend :: "request \<Rightarrow> error + response"
  random36 :: string

text \<open>\<open>const API_URL = process.env.REACT_APP_API_URL || 'http://localhost:8005'\<close>\<close>

definition API_URL :: "host \<Rightarrow> string" where
  "API_URL h =
     (case REACT_APP_API_URL h of
        Some u \<Rightarrow> if u \<noteq> [] then u else ''http://localhost:8005''
      | None \<Rightarrow> ''http://localhost:8005'')"

definition axios_create :: "string \<Rightarrow> (string \<times> string) list \<Rightarrow> client" where
  "axios_create b hs = \<lparr>client_baseURL = b, client_headers = hs\<rparr>"

definition api :: "host \<Rightarrow> client" where
  "api h = axios_create (API_URL h) [(''Content-Type'', ''application/json'')]"

text \<open>Headers of the call override the client's defaults of the same name.\<close>

definition merge_headers ::
  "(string \<times> string) list \<Rightarrow> (string \<times> string) list \<Rightarrow> (string \<times> string) list" where
  "merge_headers defaults over =
     filter (\<lambda>kv. fst kv \<notin> set (map fst over)) defaults @ over"

text \<open>The observable world of the module: the requests issued and the console.\<close>

record world =
  requests :: "request list"
  console :: "entry list"

definition console_log :: "template \<Rightarrow> world \<Rightarrow> world" where
  "console_log t w = w\<lparr>console := console w @ [Log t]\<rparr>"

definition console_error :: "string \<Rightarrow> error \<Rightarrow> world \<Rightarrow> world" where
  "console_error label e w = w\<lparr>console := console w @ [ErrorEntry label e]\<rparr>"

definition client_request ::
  "host \<Rightarrow> client \<Rightarrow> meth \<Rightarrow> template \<Rightarrow> body \<Rightarrow> config \<Rightarrow> world \<Rightarrow> (error + response) \<times> world" where
  "client_request h c m u b cfg w =
     (let req = \<lparr>meth = m, baseURL = client_baseURL c, url = u, body = b,
                 params = cfg_params cfg,
                 headers = merge_headers (client_headers c) (cfg_headers cfg)\<rparr>
      in (backend h req, w\<lparr>requests := requests w @ [req]\<rparr>))"

definition api_get :: "host \<Rightarrow> template \<Rightarrow> config \<Rightarrow> world \<Rightarrow> (error + response) \<times> world" where
  "api_get h u cfg w = client_request h (api h) GET u NoBody cfg w"

definition api_post :: "host \<Rightarrow> template \<Rightarrow> body \<Rightarrow> config \<Rightarrow> world \<Rightarrow> (error + response) \<times> world" where
  "api_post h u b cfg w = client_request h (api h) POST u b cfg w"

definition api_delete :: "host \<Rightarrow> template \<Rightarrow> config \<Rightarrow> world \<Rightarrow> (error + response) \<times> world" where
  "api_delete h u cfg w = client_request h (api h) DELETE u NoBody cfg w"

section \<open>chatApi\<close>

text \<open>The characters of a string value (used where \<open>typeof v === 'string'\<close> holds).\<close>

fun the_string :: "jsval \<Rightarrow> string" where
  "the_string (JStr s) = s"
| "the_string v = []"

definition sendMessage ::
  "host \<Rightarrow> jsval \<Rightarrow> jsval \<Rightarrow> jsval \<Rightarrow> jsval \<Rightarrow> jsval \<Rightarrow> world \<Rightarrow> (error + jsval) \<times> world" where
  "sendMessage h message responseMode0 sessionId0 systemPrompt0 promptStyle0 w =
     (let responseMode = default_arg (JStr ''rag'') responseMode0;
          sessionId = default_arg JNull sessionId0;
          systemPrompt = default_arg JNull systemPrompt0;
          promptStyle = default_arg (JStr ''default'') promptStyle0;
          session_id = or_else sessionId (JStr (''session_'' @ substring (random36 h) 2 15));
          w1 = console_log [Lit ''Sending chat request with session_id: '', Sub session_id,
                            Lit '', mode: '', Sub responseMode,
                            Lit '', promptStyle: '', Sub promptStyle] w;
          w2 = (if truthy systemPrompt
                then console_log [Lit ''Using custom system prompt ('',
                                  Sub (prop_of systemPrompt ''length''), Lit '' chars)''] w1
                else w1);
          mode0 = ''rag'';
          mode = (if responseMode = JStr ''standard'' then ''no_rag''
                  else if responseMode = JStr ''compare'' then ''compare''
                  else mode0);
          payload0 = [(''message'', message), (''session_id'', session_id),
                      (''mode'', JStr mode), (''prompt_style'', promptStyle)];
          payload = (if truthy systemPrompt
                     then set_prop payload0 ''system_prompt'' systemPrompt
                     else payload0)
      in case api_post h [Lit ''/chat''] (JsonBody (JObj payload)) no_config w2 of
           (Inr response, w3) \<Rightarrow>
             (Inr (JObj (set_prop (own_props (data response)) ''session_id'' session_id)), w3)
         | (Inl error, w3) \<Rightarrow> (Inl error, console_error ''Error sending message:'' error w3))"

definition runTests :: "host \<Rightarrow> jsval \<Rightarrow> world \<Rightarrow> (error + jsval) \<times> world" where
  "runTests h testData0 w =
     (let testData = default_arg JNull testData0 in
      case
        (if truthy testData \<and> typeof testData = ''object'' \<and> truthy (prop_of testData ''prompt'')
         then api_post h [Lit ''/test/single'']
                (JsonBody (JObj [(''prompt'', prop_of testData ''prompt''),
                                 (''expected_result'',
                                  or_else (prop_of testData ''expected_result'') (JStr []))]))
                no_config w
         else if typeof testData = ''string''
         then (if \<not> str_includes (the_string testData) ''.csv''
               then api_post h [Lit ''/test/single'']
                      (JsonBody (JObj [(''test_file'', testData)])) no_config w
               else api_post h [Lit ''/chat/batch-test'']
                      (JsonBody (JObj [(''test_file'', testData)]))
                      \<lparr>cfg_params = [(''similarity_threshold'', JNum (Fin (7 / 10)))],
                       cfg_headers = []\<rparr> w)
         else api_post h [Lit ''/test/single''] NoBody no_config w)
      of
        (Inr response, w1) \<Rightarrow> (Inr (data response), w1)
      | (Inl error, w1) \<Rightarrow> (Inl error, console_error ''Error running chat tests:'' error w1))"

definition startBatchTest :: "host \<Rightarrow> jsval \<Rightarrow> jsval \<Rightarrow> world \<Rightarrow> (error + jsval) \<times> world" where
  "startBatchTest h file similarityThreshold0 w =
     (let similarityThreshold = default_arg (JNum (Fin (7 / 10))) similarityThreshold0;
          formData = [(''csv_file'', file)]
      in case api_post h [Lit ''/test/batch/start?similarity_threshold='', Sub similarityThreshold]
                (FormData formData)
                \<lparr>cfg_params = [], cfg_headers = [(''Content-Type'', ''multipart/form-data'')]\<rparr> w of
           (Inr response, w1) \<Rightarrow> (Inr (data response), w1)
         | (Inl error, w1) \<Rightarrow> (Inl error, console_error ''Error starting batch test:'' error w1))"

definition getTestJobStatus :: "host \<Rightarrow> jsval \<Rightarrow> world \<Rightarrow> (error + jsval) \<times> world" where
  "getTestJobStatus h jobId w =
     (case api_get h [Lit ''/test/jobs/'', Sub jobId] no_config w of
        (Inr response, w1) \<Rightarrow> (Inr (data response), w1)
      | (Inl error, w1) \<Rightarrow> (Inl error, console_error ''Error getting test job status:'' error w1))"

definition getAllTestJobs :: "host \<Rightarrow> world \<Rightarrow> (error + jsval) \<times> world" where
  "getAllTestJobs h w =
     (case api_get h [Lit ''/test/jobs''] no_config w of
        (Inr response, w1) \<Rightarrow> (Inr (data response), w1)
      | (Inl error, w1) \<Rightarrow> (Inl error, console_error ''Error listing test jobs:'' error w1))"

section \<open>indexApi\<close>

definition clearCache :: "host \<Rightarrow> jsval \<Rightarrow> world \<Rightarrow> (error + jsval) \<times> world" where
  "clearCache h olderThanDays0 w =
     (let olderThanDays = default_arg JNull olderThanDays0;
          params = (if truthy olderThanDays then [(''older_than_days'', olderThanDays)] else [])
      in case api_delete h [Lit ''/chat/cache''] \<lparr>cfg_params = params, cfg_headers = []\<rparr> w of
           (Inr response, w1) \<Rightarrow> (Inr (data response), w1)
         | (Inl error, w1) \<Rightarrow> (Inl error, console_error ''Error clearing cache:'' error w1))"

definition getCacheStats :: "host \<Rightarrow> world \<Rightarrow> (error + jsval) \<times> world" where
  "getCacheStats h w =
     (case api_get h [Lit ''/chat/cache/stats''] no_config w of
        (Inr response, w1) \<Rightarrow> (Inr (data response), w1)
      | (Inl error, w1) \<Rightarrow> (Inl error, console_error ''Error fetching cache stats:'' error w1))"

definition indexGoogleDrive ::
  "host \<Rightarrow> jsval \<Rightarrow> jsval \<Rightarrow> jsval \<Rightarrow> world \<Rightarrow> (error + jsval) \<times> world" where
  "indexGoogleDrive h folderId0 recursive0 enhancedSlides0 w =
     (let folderId = default_arg JNull folderId0;
          recursive = default_arg (JBool True) recursive0;
          enhancedSlides = default_arg (JBool False) enhancedSlides0;
          params0 = [];
          params1 = (if truthy folderId then set_prop params0 ''folder_id'' folderId else params0);
          params2 = (if recursive \<noteq> JUndefined
                     then set_prop params1 ''recursive'' recursive else params1);
          params3 = (if enhancedSlides \<noteq> JUndefined
                     then set_prop params2 ''enhanced_slides'' enhancedSlides else params2)
      in case api_post h [Lit ''/index/google-drive''] (JsonBody (JObj []))
                \<lparr>cfg_params = params3, cfg_headers = []\<rparr> w of
           (Inr response, w1) \<Rightarrow> (Inr (data response), w1)
         | (Inl error, w1) \<Rightarrow> (Inl error, console_error ''Error indexing Google Drive:'' error w1))"

definition listGoogleDriveFiles :: "host \<Rightarrow> world \<Rightarrow> (error + jsval) \<times> world" where
  "listGoogleDriveFiles h w =
     (case api_get h [Lit ''/index/google-drive/files''] no_config w of
        (Inr response, w1) \<Rightarrow> (Inr (data response), w1)
      | (Inl error, w1) \<Rightarrow>
          (Inl error, console_error ''Error listing Google Drive files:'' error w1))"

definition indexShopify :: "host \<Rightarrow> jsval \<Rightarrow> world \<Rightarrow> (error + jsval) \<times> world" where
  "indexShopify h shopifyDomain0 w =
     (let shopifyDomain = default_arg JNull shopifyDomain0
      in case api_post h [Lit ''/index/''] (JsonBody (JObj [(''store'', shopifyDomain)]))
                no_config w of
           (Inr response, w1) \<Rightarrow> (Inr (data response), w1)
         | (Inl error, w1) \<Rightarrow> (Inl error, console_error ''Error indexing Shopify:'' error w1))"

definition listShopifyContent :: "host \<Rightarrow> world \<Rightarrow> (error + jsval) \<times> world" where
  "listShopifyContent h w =
     (case api_get h [Lit ''/index/''] no_config w of
        (Inr response, w1) \<Rightarrow> (Inr (data response), w1)
      | (Inl error, w1) \<Rightarrow> (Inl error, console_error ''Error listing Shopify content:'' error w1))"

definition deleteDocument :: "host \<Rightarrow> jsval \<Rightarrow> world \<Rightarrow> (error + jsval) \<times> world" where
  "deleteDocument h documentId w =
     (case api_delete h [Lit ''/index/document/'', Sub documentId] no_config w of
        (Inr response, w1) \<Rightarrow> (Inr (data response), w1)
      | (Inl error, w1) \<Rightarrow> (Inl error, console_error ''Error deleting document:'' error w1))"

definition healthCheck :: "host \<Rightarrow> world \<Rightarrow> (error + jsval) \<times> world" where
  "healthCheck h w =
     (case api_get h [Lit ''/health''] no_config w of
        (Inr response, w1) \<Rightarrow> (Inr (data response), w1)
      | (Inl error, w1) \<Rightarrow> (Inl error, console_error ''Health check failed:'' error w1))"

text \<open>
  A call of one method of the two exported objects \<open>chatApi\<close> and \<open>indexApi\<close>, with its
  arguments (\<open>JUndefined\<close> for an argument the caller leaves out).
\<close>

datatype call =
    SendMessage jsval jsval jsval jsval jsval
  | RunTests jsval
  | StartBatchTest jsval jsval
  | GetTestJobStatus jsval
  | GetAllTestJobs
  | ClearCache jsval
  | GetCacheStats
  | IndexGoogleDrive jsval jsval jsval
  | ListGoogleDriveFiles
  | IndexShopify jsval
  | ListShopifyContent
  | DeleteDocument jsval
  | HealthCheck

fun invoke :: "host \<Rightarrow> call \<Rightarrow> world \<Rightarrow> (error + jsval) \<times> world" where
  "invoke h (SendMessage m r s p st) w = sendMessage h m r s p st w"
| "invoke h (RunTests t) w = runTests h t w"
| "invoke h (StartBatchTest f t) w = startBatchTest h f t w"
| "invoke h (GetTestJobStatus j) w = getTestJobStatus h j w"
| "invoke h GetAllTestJobs w = getAllTestJobs h w"
| "invoke h (ClearCache d) w = clearCache h d w"
| "invoke h GetCacheStats w = getCacheStats h w"
| "invoke h (IndexGoogleDrive f r e) w = indexGoogleDrive h f r e w"
| "invoke h ListGoogleDriveFiles w = listGoogleDriveFiles h w"
| "invoke h (IndexShopify d) w = indexShopify h d w"
| "invoke h ListShopifyContent w = listShopifyContent h w"
| "invoke h (DeleteDocument d) w = deleteDocument h d w"
| "invoke h HealthCheck w = healthCheck h w"

text \<open>The label each method passes to \<open>console.error\<close> in its \<open>catch\<close> block.\<close>

fun error_label :: "call \<Rightarrow> string" where
  "error_label (SendMessage m r s p st) = ''Error sending message:''"
| "error_label (RunTests t) = ''Error running chat tests:''"
| "error_label (StartBatchTest f t) = ''Error starting batch test:''"
| "error_label (GetTestJobStatus j) = ''Error getting test job status:''"
| "error_label GetAllTestJobs = ''Error listing test jobs:''"
| "error_label (ClearCache d) = ''Error clearing cache:''"
| "error_label GetCacheStats = ''Error fetching cache stats:''"
| "error_label (IndexGoogleDrive f r e) = ''Error indexing Google Drive:''"
| "error_label ListGoogleDriveFiles = ''Error listing Google Drive files:''"
| "error_label (IndexShopify d) = ''Error indexing Shopify:''"
| "error_label ListShopifyContent = ''Error listing Shopify content:''"
| "error_label (DeleteDocument d) = ''Error deleting document:''"
| "error_label HealthCheck = ''Health check failed:''"

section \<open>The test runner page\<close>

text \<open>
  The page keeps two variables, \<open>jobId\<close> and \<open>pollInterval\<close>, and writes to five
  elements. The state below holds them together with what the browser keeps for the
  page: the registered intervals, the next handle \<open>setInterval\<close> will return, the
  console, the alerts shown and the requests issued with \<open>fetch\<close>.
\<close>

record fetch_call =
  f_url :: template
  f_method :: meth
  f_body :: body

text \<open>
  How a \<open>fetch\<close> settles: the promise rejects, or resolves to a response with its
  \<open>ok\<close>, \<open>status\<close> and \<open>statusText\<close> and the outcome of \<open>response.json()\<close>.
\<close>

datatype fetch_result =
    NetworkError error
  | Response bool nat string "error + jsval"

datatype callback = CheckJobStatus

record timer =
  handle :: nat
  callback :: callback
  period :: nat

record page =
  jobId :: jsval
  pollInterval :: "nat option"
  intervals :: "timer list"
  next_handle :: nat
  startButton_disabled :: bool
  progressContainer_display :: string
  progressBar_width :: template
  jobStatus_text :: template
  resultDiv_inner :: template
  page_console :: "entry list"
  alerts :: "string list"
  fetches :: "fetch_call list"

definition initial_page :: page where
  "initial_page =
     \<lparr>jobId = JNull, pollInterval = None, intervals = [], next_handle = 1,
      startButton_disabled = False, progressContainer_display = ''none'',
      progressBar_width = [Lit ''0%''], jobStatus_text = [Lit ''Starting job...''],
      resultDiv_inner = [Lit ''<p>Results will appear here...</p>''],
      page_console = [], alerts = [], fetches = []\<rparr>"

definition setInterval :: "callback \<Rightarrow> nat \<Rightarrow> page \<Rightarrow> nat \<times> page" where
  "setInterval cb ms s =
     (next_handle s,
      s\<lparr>intervals := intervals s @ [\<lparr>handle = next_handle s, callback = cb, period = ms\<rparr>],
        next_handle := Suc (next_handle s)\<rparr>)"

text \<open>\<open>clearInterval(null)\<close> and the handle of no registered interval clear nothing.\<close>

definition clearInterval :: "nat option \<Rightarrow> page \<Rightarrow> page" where
  "clearInterval h s = s\<lparr>intervals := filter (\<lambda>t. Some (handle t) \<noteq> h) (intervals s)\<rparr>"

text \<open>
  \<open>v?.toFixed(d) || dflt\<close> inside a template: \<open>undefined\<close> for a nullish \<open>v\<close>, so the
  default is printed; the text of \<open>toFixed\<close> for a number (never empty, so \<open>||\<close> keeps
  it); and a \<open>TypeError\<close> for any other value, which has no callable \<open>toFixed\<close>.
\<close>

definition toFixed_or :: "jsval \<Rightarrow> nat \<Rightarrow> jsval \<Rightarrow> error + part" where
  "toFixed_or v d dflt =
     (if nullish v then Inr (Sub dflt)
      else case v of
             JNum n \<Rightarrow> Inr (Fixed n d)
           | _ \<Rightarrow> Inl (JsError ''TypeError'' [Sub v, Lit ''.toFixed is not a function'']))"

subsection \<open>The click handler of the start button\<close>

text \<open>
  A handler runs up to its \<open>await\<close> (\<open>_begin\<close>, which issues the request) and goes on
  when the request has settled (\<open>_resume\<close>). \<open>files\<close> is \<open>fileInput.files\<close> and
  \<open>threshold\<close> is \<open>parseFloat(thresholdInput.value)\<close>. White space between the tags
  of the generated markup is left out.
\<close>

definition startButton_click_begin ::
  "jsval list option \<Rightarrow> number \<Rightarrow> page \<Rightarrow> fetch_call option \<times> page" where
  "startButton_click_begin files threshold s =
     (case files of
        None \<Rightarrow> (None, s\<lparr>alerts := alerts s @ [''Please select a CSV file first.'']\<rparr>)
      | Some [] \<Rightarrow> (None, s\<lparr>alerts := alerts s @ [''Please select a CSV file first.'']\<rparr>)
      | Some (file # rest) \<Rightarrow>
          (let s1 = s\<lparr>startButton_disabled := True,
                      progressContainer_display := ''block'',
                      progressBar_width := [Lit ''0%''],
                      jobStatus_text := [Lit ''Starting job...''],
                      resultDiv_inner := [Lit ''<p>Job starting...</p>'']\<rparr>;
               formData = [(''csv_file'', file)];
               c = \<lparr>f_url = [Lit ''/test/batch/start?similarity_threshold='', Sub (JNum threshold)],
                    f_method = POST, f_body = FormData formData\<rparr>
           in (Some c, s1\<lparr>fetches := fetches s1 @ [c]\<rparr>)))"

definition startButton_click_catch :: "error \<Rightarrow> page \<Rightarrow> page" where
  "startButton_click_catch e s =
     s\<lparr>page_console := page_console s @ [ErrorEntry ''Error starting job:'' e],
       jobStatus_text := [Lit ''Error: ''] @ err_message e,
       resultDiv_inner := [Lit ''<p>Error: ''] @ err_message e @ [Lit ''</p>''],
       startButton_disabled := False\<rparr>"

definition startButton_click_resume :: "fetch_result \<Rightarrow> page \<Rightarrow> page" where
  "startButton_click_resume r s =
     (case r of
        NetworkError e \<Rightarrow> startButton_click_catch e s
      | Response ok st txt js \<Rightarrow>
          if \<not> ok
          then startButton_click_catch
                 (JsError ''Error'' [Lit ''Error starting job: '', Sub (JNum (Fin (of_nat st))),
                                     Lit '' '', Sub (JStr txt)]) s
          else (case js of
                 Inl e \<Rightarrow> startButton_click_catch e s
               | Inr jobData \<Rightarrow>
                   (case get_prop jobData ''job_id'' of
                      Inl e \<Rightarrow> startButton_click_catch e s
                    | Inr job_id \<Rightarrow>
                        (let s1 = s\<lparr>jobId := job_id\<rparr>;
                             s2 = s1\<lparr>jobStatus_text := [Lit ''Job started with ID: '', Sub (jobId s1)],
                                     resultDiv_inner := [Lit ''<p>Job started with ID: '',
                                                         Sub (jobId s1), Lit ''</p>'']\<rparr>;
                             hs = setInterval CheckJobStatus 5000 s2
                         in (snd hs)\<lparr>pollInterval := Some (fst hs)\<rparr>))))"

definition startButton_click ::
  "(fetch_call \<Rightarrow> fetch_result) \<Rightarrow> jsval list option \<Rightarrow> number \<Rightarrow> page \<Rightarrow> page" where
  "startButton_click net files threshold s =
     (case startButton_click_begin files threshold s of
        (None, s1) \<Rightarrow> s1
      | (Some c, s1) \<Rightarrow> startButton_click_resume (net c) s1)"

subsection \<open>checkJobStatus\<close>

definition checkJobStatus_begin :: "page \<Rightarrow> fetch_call option \<times> page" where
  "checkJobStatus_begin s =
     (if \<not> truthy (jobId s) then (None, s)
      else (let c = \<lparr>f_url = [Lit ''/test/jobs/'', Sub (jobId s)], f_method = GET, f_body = NoBody\<rparr>
            in (Some c, s\<lparr>fetches := fetches s @ [c]\<rparr>)))"

definition checkJobStatus_catch :: "error \<Rightarrow> page \<Rightarrow> page" where
  "checkJobStatus_catch e s =
     s\<lparr>page_console := page_console s @ [ErrorEntry ''Error checking job status:'' e],
       jobStatus_text := [Lit ''Error checking status: ''] @ err_message e\<rparr>"

text \<open>
  After the first read of a property of \<open>jobData\<close> has succeeded, \<open>jobData\<close> is not
  nullish and the later reads cannot throw; they are written with \<open>prop_of\<close>.
\<close>

definition checkJobStatus_resume :: "fetch_result \<Rightarrow> page \<Rightarrow> page" where
  "checkJobStatus_resume r s =
     (case r of
        NetworkError e \<Rightarrow> checkJobStatus_catch e s
      | Response ok st txt js \<Rightarrow>
          if \<not> ok
          then checkJobStatus_catch
                 (JsError ''Error'' [Lit ''Error checking job: '', Sub (JNum (Fin (of_nat st))),
                                     Lit '' '', Sub (JStr txt)]) s
          else (case js of
                 Inl e \<Rightarrow> checkJobStatus_catch e s
               | Inr jobData \<Rightarrow>
                   (case get_prop jobData ''progress'' of
                      Inl e \<Rightarrow> checkJobStatus_catch e s
                    | Inr progress \<Rightarrow>
                        (let s1 = (if progress \<noteq> JUndefined
                                   then s\<lparr>progressBar_width := [Sub progress, Lit ''%'']\<rparr>
                                   else s);
                             s2 = s1\<lparr>jobStatus_text :=
                                       [Lit ''Status: '', Sub (prop_of jobData ''status''), Lit '' - '',
                                        Sub (or_else (prop_of jobData ''message'') (JStr []))]\<rparr>
                         in if prop_of jobData ''status'' = JStr ''completed''
                            then (let s3 = clearInterval (pollInterval s2) s2;
                                      s4 = s3\<lparr>startButton_disabled := False\<rparr>;
                                      result = or_else (prop_of jobData ''result'') (JObj [])
                                  in case toFixed_or (prop_of result ''pass_rate'') 2 (JNum (Fin 0)) of
                                       Inl e \<Rightarrow> checkJobStatus_catch e s4
                                     | Inr pass_rate \<Rightarrow>
                                         (case toFixed_or (prop_of jobData ''duration_seconds'') 2
                                                 (JStr ''?'') of
                                            Inl e \<Rightarrow> checkJobStatus_catch e s4
                                          | Inr duration \<Rightarrow>
                                              s4\<lparr>resultDiv_inner :=
                                                   [Lit ''<h3>Test Results</h3>'',
                                                    Lit ''<p>Total tests: '',
                                                    Sub (or_else (prop_of result ''total_tests'') (JNum (Fin 0))),
                                                    Lit ''</p><p>Passed: '',
                                                    Sub (or_else (prop_of result ''passed'') (JNum (Fin 0))),
                                                    Lit ''</p><p>Failed: '',
                                                    Sub (or_else (prop_of result ''failed'') (JNum (Fin 0))),
                                                    Lit ''</p><p>Pass rate: '', pass_rate,
                                                    Lit ''%</p><p>Duration: '', duration,
                                                    Lit '' seconds</p>'']\<rparr>))
                            else if prop_of jobData ''status'' = JStr ''failed''
                            then (let s3 = clearInterval (pollInterval s2) s2;
                                      s4 = s3\<lparr>startButton_disabled := False\<rparr>;
                                      err = prop_of jobData ''error'';
                                      msg = (if nullish err then JUndefined else prop_of err ''message'')
                                  in s4\<lparr>resultDiv_inner :=
                                          [Lit ''<p>Job failed: '',
                                           Sub (or_else msg (JStr ''Unknown error'')), Lit ''</p>'']\<rparr>)
                            else s2))))"

definition checkJobStatus :: "(fetch_call \<Rightarrow> fetch_result) \<Rightarrow> page \<Rightarrow> page" where
  "checkJobStatus net s =
     (case checkJobStatus_begin s of
        (None, s1) \<Rightarrow> s1
      | (Some c, s1) \<Rightarrow> checkJobStatus_resume (net c) s1)"

subsection \<open>The event loop around the poll\<close>

text \<open>
  The browser runs one handler at a time. \<open>Tick h\<close>: the interval with handle \<open>h\<close>
  fires, if it is registered, and \<open>checkJobStatus\<close> runs up to its \<open>fetch\<close>.
  \<open>Settle i r\<close>: the \<open>i\<close>-th request in flight settles with \<open>r\<close> and the rest of
  that run of \<open>checkJobStatus\<close> is executed. The state is the page and the requests in
  flight.
\<close>

datatype event = Tick nat | Settle nat fetch_result

fun step :: "event \<Rightarrow> page \<times> fetch_call list \<Rightarrow> page \<times> fetch_call list" where
  "step (Tick h) (s, pending) =
     (if h \<in> set (map handle (intervals s))
      then (case checkJobStatus_begin s of
              (None, s1) \<Rightarrow> (s1, pending)
            | (Some c, s1) \<Rightarrow> (s1, pending @ [c]))
      else (s, pending))"
| "step (Settle i r) (s, pending) =
     (if i < length pending
      then (checkJobStatus_resume r s, take i pending @ drop (Suc i) pending)
      else (s, pending))"

fun run :: "event list \<Rightarrow> page \<times> fetch_call list \<Rightarrow> page \<times> fetch_call list" where
  "run [] st = st"
| "run (e # es) st = run es (step e st)"

section \<open>Notions used to state the properties\<close>

text \<open>
  The endpoints the specification enumerates, as a predicate on the method and the path
  of a request. \<open>{id}\<close> is one substituted value after the literal prefix. \<open>/chat/cache\<close>
  is listed for DELETE and \<open>/chat/cache/stats\<close> for GET; the other entries name no
  method.
\<close>

fun id_path :: "string \<Rightarrow> template \<Rightarrow> bool" where
  "id_path pre [Lit s, Sub v] = (s = pre)"
| "id_path pre t = False"

definition spec_endpoint :: "meth \<Rightarrow> template \<Rightarrow> bool" where
  "spec_endpoint m p =
     (p = [Lit ''/chat''] \<or> p = [Lit ''/test/single''] \<or> p = [Lit ''/chat/batch-test'']
      \<or> p = [Lit ''/test/batch/start''] \<or> id_path ''/test/jobs/'' p \<or> p = [Lit ''/test/jobs'']
      \<or> (p = [Lit ''/chat/cache''] \<and> m = DELETE) \<or> (p = [Lit ''/chat/cache/stats''] \<and> m = GET)
      \<or> p = [Lit ''/index/google-drive''] \<or> p = [Lit ''/index/google-drive/files'']
      \<or> p = [Lit ''/index/''] \<or> id_path ''/index/document/'' p \<or> p = [Lit ''/health''])"

text \<open>The path of a URL: the URL up to the question mark that starts its query string.\<close>

fun path_of :: "template \<Rightarrow> template" where
  "path_of [] = []"
| "path_of (Lit s # ps) =
     (if CHR ''?'' \<in> set s then [Lit (takeWhile (\<lambda>c. c \<noteq> CHR ''?'') s)] else Lit s # path_of ps)"
| "path_of (p # ps) = p # path_of ps"

text \<open>The status field of a status response is one of the two terminal strings.\<close>

definition terminal_status :: "jsval \<Rightarrow> bool" where
  "terminal_status jobData =
     (get_prop jobData ''status'' = Inr (JStr ''completed'')
      \<or> get_prop jobData ''status'' = Inr (JStr ''failed''))"

text \<open>A request settles with a status response that carries a terminal status.\<close>

fun terminal_result :: "fetch_result \<Rightarrow> bool" where
  "terminal_result (Response ok st txt (Inr jobData)) = (ok \<and> terminal_status jobData)"
| "terminal_result r = False"

fun terminal_event :: "event \<Rightarrow> bool" where
  "terminal_event (Settle i r) = terminal_result r"
| "terminal_event (Tick h) = False"

text \<open>The interval with handle \<open>h\<close> is registered.\<close>

definition registered :: "nat \<Rightarrow> page \<Rightarrow> bool" where
  "registered h s = (h \<in> set (map handle (intervals s)))"

text \<open>The ticks of a run that find their interval registered in \<open>s\<close>.\<close>

fun is_tick_of :: "page \<Rightarrow> event \<Rightarrow> bool" where
  "is_tick_of s (Tick h) = registered h s"
| "is_tick_of s (Settle i r) = False"

text \<open>An argument is provided: the caller passes a value other than \<open>undefined\<close> and \<open>null\<close>.\<close>

definition provided :: "jsval \<Rightarrow> bool" where
  "provided v = (v \<noteq> JUndefined \<and> v \<noteq> JNull)"

text \<open>The payload of the last request issued, when it is a JSON object.\<close>

definition posted_payload :: "world \<Rightarrow> (string \<times> jsval) list" where
  "posted_payload w =
     (case body (last (requests w)) of JsonBody (JObj kvs) \<Rightarrow> kvs | _ \<Rightarrow> [])"

definition is_sendMessage :: "call \<Rightarrow> bool" where
  "is_sendMessage c = (case c of SendMessage m r s p st \<Rightarrow> True | _ \<Rightarrow> False)"

subsection \<open>A concrete host and page for examples\<close>

definition demo_error :: error where
  "demo_error = JsError ''AxiosError'' [Lit ''Network Error'']"

definition demo_data :: jsval where
  "demo_data = JObj [(''answer'', JStr ''hello''), (''session_id'', JStr ''from-backend'')]"

definition demo_backend :: "request \<Rightarrow> error + response" where
  "demo_backend req =
     (if meth req = DELETE then Inl demo_error else Inr \<lparr>data = demo_data, status = 200\<rparr>)"

definition demo_host :: host where
  "demo_host = \<lparr>REACT_APP_API_URL = None, backend = demo_backend, random36 = ''0.4fzyo82mvyr''\<rparr>"

definition empty_world :: world where
  "empty_world = \<lparr>requests = [], console = []\<rparr>"

text \<open>A network that starts the job \<open>job-1\<close> and reports it as running.\<close>

definition demo_net :: "fetch_call \<Rightarrow> fetch_result" where
  "demo_net c =
     (if f_method c = POST
      then Response True 200 ''OK'' (Inr (JObj [(''job_id'', JStr ''job-1'')]))
      else Response True 200 ''OK''
             (Inr (JObj [(''status'', JStr ''running''), (''progress'', JNum (Fin 40))])))"

text \<open>The page while the job \<open>job-1\<close> is polled by the interval with handle 1.\<close>

definition polling_page :: page where
  "polling_page =
     initial_page\<lparr>jobId := JStr ''job-1'', pollInterval := Some 1,
                  intervals := [\<lparr>handle = 1, callback = CheckJobStatus, period = 5000\<rparr>],
                  next_handle := 2, startButton_disabled := True,
                  progressContainer_display := ''block''\<rparr>"

section \<open>Basic facts about values\<close>

lemmas client_defs = api_get_def api_post_def api_delete_def client_request_def
  console_error_def console_log_def

lemmas facade_defs = sendMessage_def runTests_def startBatchTest_def getTestJobStatus_def
  getAllTestJobs_def clearCache_def getCacheStats_def indexGoogleDrive_def
  listGoogleDriveFiles_def indexShopify_def listShopifyContent_def deleteDocument_def
  healthCheck_def

lemmas demo_defs = demo_host_def demo_backend_def demo_data_def demo_error_def empty_world_def
  no_config_def api_def axios_create_def API_URL_def merge_headers_def

lemma truthy_not_nullish: "truthy v \<Longrightarrow> get_prop v k = Inr (prop_of v k)"
  by (cases v) (simp_all add: get_prop_def nullish_def)

lemma map_of_set_prop: "map_of (set_prop kvs k v) = (map_of kvs)(k \<mapsto> v)"
  by (induction kvs k v rule: set_prop.induct) (auto simp: fun_eq_iff)

lemma lookup_set_prop: "lookup (set_prop kvs k v) k' = (if k' = k then v else lookup kvs k')"
  by (simp add: lookup_def map_of_set_prop)

lemma keys_set_prop: "set (map fst (set_prop kvs k v)) = insert k (set (map fst kvs))"
  by (induction kvs k v rule: set_prop.induct) auto

lemma truthy_default_null [simp]: "truthy (default_arg JNull v) = truthy v"
  by (simp add: default_arg_def)

lemma or_else_default_null [simp]: "or_else (default_arg JNull v) d = or_else v d"
  by (simp add: default_arg_def or_else_def)

lemma default_rag_standard [simp]:
  "(default_arg (JStr ''rag'') r = JStr ''standard'') = (r = JStr ''standard'')"
  by (simp add: default_arg_def)

lemma default_rag_compare [simp]:
  "(default_arg (JStr ''rag'') r = JStr ''compare'') = (r = JStr ''compare'')"
  by (simp add: default_arg_def)

lemma truthy_default_id: "truthy v \<Longrightarrow> default_arg d v = v"
  by (cases v) (simp_all add: default_arg_def)

lemma prop_of_obj [simp]: "prop_of (JObj kvs) k = lookup kvs k"
  by (simp add: prop_of_def)

text \<open>\<open>starts_with\<close> and \<open>str_includes\<close> are the prefix and the substring test.\<close>

lemma starts_with_iff: "starts_with s sub \<longleftrightarrow> (\<exists>b. s = sub @ b)"
  by (induction s sub rule: starts_with.induct) auto

lemma str_includes_iff: "str_includes s sub \<longleftrightarrow> (\<exists>a b. s = a @ sub @ b)"
proof (induction s)
  case Nil
  then show ?case by auto
next
  case (Cons c cs)
  show ?case
  proof
    assume "str_includes (c # cs) sub"
    then consider "starts_with (c # cs) sub" | "str_includes cs sub" by auto
    then show "\<exists>a b. c # cs = a @ sub @ b"
    proof cases
      case 1
      then obtain b where "c # cs = sub @ b" by (auto simp: starts_with_iff)
      then have "c # cs = [] @ sub @ b" by simp
      then show ?thesis by blast
    next
      case 2
      then obtain a b where "cs = a @ sub @ b" using Cons.IH by blast
      then have "c # cs = (c # a) @ sub @ b" by simp
      then show ?thesis by blast
    qed
  next
    assume "\<exists>a b. c # cs = a @ sub @ b"
    then obtain a b where ab: "c # cs = a @ sub @ b" by blast
    show "str_includes (c # cs) sub"
    proof (cases a)
      case Nil
      with ab have "starts_with (c # cs) sub" by (auto simp: starts_with_iff)
      then show ?thesis by simp
    next
      case (Cons x xs)
      with ab have "cs = xs @ sub @ b" by simp
      then have "str_includes cs sub" using Cons.IH by blast
      then show ?thesis by simp
    qed
  qed
qed

text \<open>An index key consists of digits, so no array or string has a property \<open>prompt\<close>.\<close>

lemma digit_in: "digit d \<in> set ''0123456789''"
  unfolding digit_def by (rule nth_mem) simp

lemma dec_digits: "set (dec n) \<subseteq> set ''0123456789''"
proof (induction n rule: dec.induct)
  case (1 n)
  show ?case
  proof (cases "n < 10")
    case True
    then have "dec n = [digit n]" by (simp add: dec.simps [of n])
    then show ?thesis using digit_in [of n] by simp
  next
    case False
    then have "dec n = dec (n div 10) @ [digit n]" by (simp add: dec.simps [of n])
    then show ?thesis using 1 False digit_in [of n] by simp
  qed
qed

lemma dec_not_name: "CHR ''p'' \<in> set k \<Longrightarrow> k \<notin> dec ` A"
  using dec_digits by fastforce

lemma lookup_index_props:
  assumes "CHR ''p'' \<in> set k" and "length xs = n"
  shows "lookup (zip (map dec [0..<n]) xs) k = JUndefined"
proof -
  have "k \<notin> dec ` {0..<n}" using assms(1) by (rule dec_not_name)
  then have notin: "k \<notin> set (map dec [0..<n])" by simp
  have len: "length (map dec [0..<n]) = length xs" using assms(2) by simp
  have "map_of (zip (map dec [0..<n]) xs) k = None"
    using map_of_zip_is_None [OF len, of k] notin by blast
  then show ?thesis by (simp add: lookup_def)
qed

lemma prop_of_prompt_array [simp]: "prop_of (JArr xs) ''prompt'' = JUndefined"
  by (simp add: prop_of_def lookup_index_props)

lemma prop_of_prompt_host [simp]: "prop_of (JHost x) ''prompt'' = JUndefined"
  by (simp add: prop_of_def lookup_def)

section \<open>Properties of the API facade\<close>






text \<open>
  Claim C4. \<open>runTests\<close> posts one request, chosen by the shape of \<open>testData\<close>: an object
  with a truthy \<open>prompt\<close> goes to \<open>/test/single\<close> with that prompt and with
  \<open>expected_result\<close>, replaced by the empty string when it is falsy; a string without
  \<open>.csv\<close> goes to \<open>/test/single\<close> as \<open>test_file\<close>; a string with \<open>.csv\<close> goes to
  \<open>/chat/batch-test\<close> as \<open>test_file\<close> with the query parameter \<open>similarity_threshold\<close>
  0.7; every other input, \<open>null\<close> included, goes to \<open>/test/single\<close> with no body.
\<close>

theorem runTests_dispatch:
  assumes "runTests h t w = (res, w')"
  shows "\<exists>req. requests w' = requests w @ [req] \<and> meth req = POST
     \<and> (\<forall>kvs. t = JObj kvs \<and> truthy (lookup kvs ''prompt'') \<longrightarrow>
           url req = [Lit ''/test/single''] \<and> params req = []
           \<and> body req = JsonBody (JObj [(''prompt'', lookup kvs ''prompt''),
                  (''expected_result'', or_else (lookup kvs ''expected_result'') (JStr []))]))
     \<and> (\<forall>s. t = JStr s \<and> \<not> str_includes s ''.csv'' \<longrightarrow>
           url req = [Lit ''/test/single''] \<and> params req = []
           \<and> body req = JsonBody (JObj [(''test_file'', t)]))
     \<and> (\<forall>s. t = JStr s \<and> str_includes s ''.csv'' \<longrightarrow>
           url req = [Lit ''/chat/batch-test'']
           \<and> params req = [(''similarity_threshold'', JNum (Fin (7 / 10)))]
           \<and> body req = JsonBody (JObj [(''test_file'', t)]))
     \<and> ((\<forall>kvs. t = JObj kvs \<longrightarrow> \<not> truthy (lookup kvs ''prompt'')) \<and> (\<forall>s. t \<noteq> JStr s) \<longrightarrow>
           url req = [Lit ''/test/single''] \<and> params req = [] \<and> body req = NoBody)"
  using assms
  by (cases t)
     (auto simp: runTests_def client_defs Let_def default_arg_def no_config_def
           split: sum.splits if_splits)

theorem runTests_dispatch_witness:
  "(url (last (requests (snd (runTests demo_host (JObj [(''prompt'', JStr ''2+2?'')]) empty_world))))
      = [Lit ''/test/single'']
    \<and> body (last (requests (snd (runTests demo_host (JObj [(''prompt'', JStr ''2+2?'')]) empty_world))))
      = JsonBody (JObj [(''prompt'', JStr ''2+2?''), (''expected_result'', JStr [])]))
   \<and> (url (last (requests (snd (runTests demo_host (JStr ''cases.txt'') empty_world))))
      = [Lit ''/test/single'']
    \<and> body (last (requests (snd (runTests demo_host (JStr ''cases.txt'') empty_world))))
      = JsonBody (JObj [(''test_file'', JStr ''cases.txt'')]))
   \<and> (url (last (requests (snd (runTests demo_host (JStr ''cases.csv'') empty_world))))
      = [Lit ''/chat/batch-test'']
    \<and> params (last (requests (snd (runTests demo_host (JStr ''cases.csv'') empty_world))))
      = [(''similarity_threshold'', JNum (Fin (7 / 10)))])
   \<and> (url (last (requests (snd (runTests demo_host JNull empty_world)))) = [Lit ''/test/single'']
    \<and> body (last (requests (snd (runTests demo_host JNull empty_world)))) = NoBody)"
proof -
  let ?A = "runTests demo_host (JObj [(''prompt'', JStr ''2+2?'')]) empty_world"
  let ?B = "runTests demo_host (JStr ''cases.txt'') empty_world"
  let ?C = "runTests demo_host (JStr ''cases.csv'') empty_world"
  let ?D = "runTests demo_host JNull empty_world"
  have a: "?A = (fst ?A, snd ?A)" and b: "?B = (fst ?B, snd ?B)"
    and c: "?C = (fst ?C, snd ?C)" and d: "?D = (fst ?D, snd ?D)" by simp_all
  have A: "url (last (requests (snd ?A))) = [Lit ''/test/single'']
      \<and> body (last (requests (snd ?A)))
          = JsonBody (JObj [(''prompt'', JStr ''2+2?''), (''expected_result'', JStr [])])"
  proof -
    from runTests_dispatch [OF a] obtain req where
      1: "requests (snd ?A) = requests empty_world @ [req]" and
      2: "\<forall>kvs. JObj [(''prompt'', JStr ''2+2?'')] = JObj kvs \<and> truthy (lookup kvs ''prompt'') \<longrightarrow>
            url req = [Lit ''/test/single''] \<and> params req = []
            \<and> body req = JsonBody (JObj [(''prompt'', lookup kvs ''prompt''),
                   (''expected_result'', or_else (lookup kvs ''expected_result'') (JStr []))])"
      by (elim exE conjE)
    from 1 have "last (requests (snd ?A)) = req" by simp
    moreover have "truthy (lookup [(''prompt'', JStr ''2+2?'')] ''prompt'')"
      by (simp add: lookup_def)
    ultimately show ?thesis using 2 by (simp add: lookup_def or_else_def)
  qed
  have B: "url (last (requests (snd ?B))) = [Lit ''/test/single'']
      \<and> body (last (requests (snd ?B))) = JsonBody (JObj [(''test_file'', JStr ''cases.txt'')])"
  proof -
    from runTests_dispatch [OF b] obtain req where
      1: "requests (snd ?B) = requests empty_world @ [req]" and
      2: "\<forall>s. JStr ''cases.txt'' = JStr s \<and> \<not> str_includes s ''.csv'' \<longrightarrow>
            url req = [Lit ''/test/single''] \<and> params req = []
            \<and> body req = JsonBody (JObj [(''test_file'', JStr ''cases.txt'')])"
      by (elim exE conjE)
    from 1 have "last (requests (snd ?B)) = req" by simp
    moreover have "\<not> str_includes ''cases.txt'' ''.csv''" by simp
    ultimately show ?thesis using 2 by simp
  qed
  have C: "url (last (requests (snd ?C))) = [Lit ''/chat/batch-test'']
      \<and> params (last (requests (snd ?C))) = [(''similarity_threshold'', JNum (Fin (7 / 10)))]"
  proof -
    from runTests_dispatch [OF c] obtain req where
      1: "requests (snd ?C) = requests empty_world @ [req]" and
      2: "\<forall>s. JStr ''cases.csv'' = JStr s \<and> str_includes s ''.csv'' \<longrightarrow>
            url req = [Lit ''/chat/batch-test'']
            \<and> params req = [(''similarity_threshold'', JNum (Fin (7 / 10)))]
            \<and> body req = JsonBody (JObj [(''test_file'', JStr ''cases.csv'')])"
      by (elim exE conjE)
    from 1 have "last (requests (snd ?C)) = req" by simp
    moreover have "str_includes ''cases.csv'' ''.csv''" by simp
    ultimately show ?thesis using 2 by simp
  qed
  have D: "url (last (requests (snd ?D))) = [Lit ''/test/single'']
      \<and> body (last (requests (snd ?D))) = NoBody"
  proof -
    from runTests_dispatch [OF d] obtain req where
      1: "requests (snd ?D) = requests empty_world @ [req]" and
      2: "(\<forall>kvs. JNull = JObj kvs \<longrightarrow> \<not> truthy (lookup kvs ''prompt'')) \<and> (\<forall>s. JNull \<noteq> JStr s) \<longrightarrow>
            url req = [Lit ''/test/single''] \<and> params req = [] \<and> body req = NoBody"
      by (elim exE conjE)
    from 1 have "last (requests (snd ?D)) = req" by simp
    then show ?thesis using 2 by simp
  qed
  from A B C D show ?thesis by (intro conjI) simp_all
qed








text \<open>
  Claim C10. \<open>clearCache\<close> sends one DELETE to \<open>/chat/cache\<close>, and the query parameter
  \<open>older_than_days\<close> is there exactly when \<open>olderThanDays\<close> is truthy. With 0 the call
  is the same as with \<open>null\<close> and as with no argument: no parameter is sent, so the
  deletion of entries older than zero days cannot be asked for.
\<close>

theorem clearCache_params:
  assumes "clearCache h d w = (res, w')"
  shows "\<exists>req. requests w' = requests w @ [req] \<and> meth req = DELETE
           \<and> url req = [Lit ''/chat/cache''] \<and> body req = NoBody
           \<and> params req = (if truthy d then [(''older_than_days'', d)] else [])
           \<and> (''older_than_days'' \<in> set (map fst (params req))) = truthy d
           \<and> clearCache h (JNum (Fin 0)) w = clearCache h JNull w
           \<and> clearCache h (JNum (Fin 0)) w = clearCache h JUndefined w"
  using assms
  by (auto simp: clearCache_def client_defs Let_def default_arg_def split: sum.splits if_splits)

theorem clearCache_params_witness:
  "params (last (requests (snd (clearCache demo_host (JNum (Fin 0)) empty_world)))) = []
   \<and> params (last (requests (snd (clearCache demo_host (JNum (Fin 30)) empty_world))))
       = [(''older_than_days'', JNum (Fin 30))]
   \<and> clearCache demo_host (JNum (Fin 0)) empty_world = clearCache demo_host JNull empty_world"
proof -
  let ?A = "clearCache demo_host (JNum (Fin 0)) empty_world"
  let ?B = "clearCache demo_host (JNum (Fin 30)) empty_world"
  have a: "?A = (fst ?A, snd ?A)" and b: "?B = (fst ?B, snd ?B)" by simp_all
  from clearCache_params [OF a] obtain req where
    1: "requests (snd ?A) = requests empty_world @ [req]" and
    2: "params req = (if truthy (JNum (Fin 0)) then [(''older_than_days'', JNum (Fin 0))] else [])" and
    3: "clearCache demo_host (JNum (Fin 0)) empty_world = clearCache demo_host JNull empty_world"
    by (elim exE conjE)
  from clearCache_params [OF b] obtain req' where
    4: "requests (snd ?B) = requests empty_world @ [req']" and
    5: "params req' = (if truthy (JNum (Fin 30)) then [(''older_than_days'', JNum (Fin 30))] else [])"
    by (elim exE conjE)
  from 1 2 have A: "params (last (requests (snd ?A))) = []" by simp
  from 4 5 have B: "params (last (requests (snd ?B))) = [(''older_than_days'', JNum (Fin 30))]" by simp
  from A B 3 show ?thesis by simp
qed

section \<open>Properties of the test runner page\<close>

lemma catch_frame [simp]:
  "intervals (checkJobStatus_catch e s) = intervals s"
  "pollInterval (checkJobStatus_catch e s) = pollInterval s"
  "jobId (checkJobStatus_catch e s) = jobId s"
  "startButton_disabled (checkJobStatus_catch e s) = startButton_disabled s"
  "fetches (checkJobStatus_catch e s) = fetches s"
  "next_handle (checkJobStatus_catch e s) = next_handle s"
  by (simp_all add: checkJobStatus_catch_def)

lemma clearInterval_frame [simp]:
  "intervals (clearInterval h s) = filter (\<lambda>t. Some (handle t) \<noteq> h) (intervals s)"
  "pollInterval (clearInterval h s) = pollInterval s"
  "jobId (clearInterval h s) = jobId s"
  "startButton_disabled (clearInterval h s) = startButton_disabled s"
  "fetches (clearInterval h s) = fetches s"
  "next_handle (clearInterval h s) = next_handle s"
  by (simp_all add: clearInterval_def)

text \<open>No run of \<open>checkJobStatus\<close> changes the two variables or issues a second request.\<close>

lemma resume_frame:
  "jobId (checkJobStatus_resume r s) = jobId s"
  "pollInterval (checkJobStatus_resume r s) = pollInterval s"
  "fetches (checkJobStatus_resume r s) = fetches s"
  "next_handle (checkJobStatus_resume r s) = next_handle s"
  by (auto simp: checkJobStatus_resume_def Let_def split: fetch_result.splits sum.splits)

text \<open>
  The interval is cleared and the button enabled on a terminal status response and on
  nothing else. An error thrown while the results are formatted comes after both.
\<close>

lemma resume_intervals:
  "intervals (checkJobStatus_resume r s) =
     (if terminal_result r then filter (\<lambda>t. Some (handle t) \<noteq> pollInterval s) (intervals s)
      else intervals s)"
  by (cases r)
     (auto simp: checkJobStatus_resume_def Let_def terminal_status_def get_prop_def
           split: sum.splits)

lemma resume_disabled:
  "startButton_disabled (checkJobStatus_resume r s) =
     (if terminal_result r then False else startButton_disabled s)"
  by (cases r)
     (auto simp: checkJobStatus_resume_def Let_def terminal_status_def get_prop_def
           split: sum.splits)

lemma step_nonterminal:
  assumes "\<not> terminal_event e"
  shows "intervals (fst (step e (s, p))) = intervals s"
    and "jobId (fst (step e (s, p))) = jobId s"
    and "length (fetches (fst (step e (s, p)))) =
           length (fetches s) + (if is_tick_of s e \<and> truthy (jobId s) then 1 else 0)"
  using assms
  by (cases e; simp add: resume_intervals resume_frame checkJobStatus_begin_def Let_def registered_def)+

lemma is_tick_of_cong: "intervals s' = intervals s \<Longrightarrow> is_tick_of s' e = is_tick_of s e"
  by (cases e) (simp_all add: registered_def)

text \<open>
  A run of the event loop in which no request settles with a terminal status leaves the
  registered intervals as they are, and every tick of a registered interval issues one
  request, whatever is in flight.
\<close>

lemma run_nonterminal:
  assumes "\<not> list_ex terminal_event es"
  shows "intervals (fst (run es (s, p))) = intervals s
         \<and> jobId (fst (run es (s, p))) = jobId s
         \<and> length (fetches (fst (run es (s, p)))) =
             length (fetches s) + (if truthy (jobId s) then length (filter (is_tick_of s) es) else 0)"
  using assms
proof (induction es arbitrary: s p)
  case Nil
  then show ?case by simp
next
  case (Cons e es)
  obtain s1 p1 where st: "step e (s, p) = (s1, p1)" by (cases "step e (s, p)")
  from Cons.prems have ne: "\<not> terminal_event e" and nes: "\<not> list_ex terminal_event es"
    by simp_all
  from step_nonterminal [OF ne, of s p] st
  have i1: "intervals s1 = intervals s" and j1: "jobId s1 = jobId s"
    and f1: "length (fetches s1) =
               length (fetches s) + (if is_tick_of s e \<and> truthy (jobId s) then 1 else 0)"
    by simp_all
  have flt: "filter (is_tick_of s1) es = filter (is_tick_of s) es"
    using is_tick_of_cong [OF i1] by (simp cong: filter_cong)
  from Cons.IH [OF nes, of s1 p1] i1 j1 f1 flt st show ?case by simp
qed







end
